theory Spec2Isabelle
  imports Main "HOL-Library.Multiset"
begin

section \<open>Data model\<close>

text \<open>
  Python strings are modelled as HOL strings, one \<open>char\<close> per code point (code points
  below 256). Instants are microseconds on the UTC clock.
\<close>

type_synonym time = int

text \<open>
  A value read from the request's JSON object: the key is missing, the value is
  \<open>null\<close>, or there is a value. \<open>dict_get\<close> is \<open>data.get(key)\<close> and
  \<open>dict_get_default\<close> is \<open>data.get(key, default)\<close>: only a missing key takes the
  default.
\<close>

datatype 'a field = Absent | Null | Val 'a

fun dict_get :: "'a field \<Rightarrow> 'a option" where
  "dict_get Absent = None"
| "dict_get Null = None"
| "dict_get (Val v) = Some v"

fun dict_get_default :: "'a \<Rightarrow> 'a field \<Rightarrow> 'a option" where
  "dict_get_default d Absent = Some d"
| "dict_get_default d Null = None"
| "dict_get_default d (Val v) = Some v"

text \<open>Python's truth value of \<open>None\<close> or a string: \<open>not x\<close> is \<open>\<not> truthy x\<close>.\<close>

fun truthy :: "string option \<Rightarrow> bool" where
  "truthy None = False"
| "truthy (Some s) = (s \<noteq> [])"

text \<open>
  A JSON value whose type the code inspects with \<open>isinstance\<close> (the title and the
  completed flag of an update).
\<close>

datatype json = JStr string | JBool bool | JInt int

subsection \<open>Credential store (werkzeug.security)\<close>

text \<open>
  \<open>generate_password_hash\<close> draws a random salt and returns a text that embeds the
  salt beside the digest; \<open>check_password_hash\<close> recomputes the digest with the
  embedded salt and compares. The key derivation function (PBKDF2 with SHA-256) is a
  parameter \<open>kdf\<close>, from salt and password to digest; the salt drawn is an input.
\<close>

record pwhash =
  hash_salt :: string
  hash_digest :: string

definition generate_password_hash :: "(string \<Rightarrow> string \<Rightarrow> string) \<Rightarrow> string \<Rightarrow> string \<Rightarrow> pwhash" where
  "generate_password_hash kdf salt pw = \<lparr>hash_salt = salt, hash_digest = kdf salt pw\<rparr>"

definition check_password_hash :: "(string \<Rightarrow> string \<Rightarrow> string) \<Rightarrow> pwhash \<Rightarrow> string \<Rightarrow> bool" where
  "check_password_hash kdf h pw = (kdf (hash_salt h) pw = hash_digest h)"

subsection \<open>Rows and the store\<close>

record user =
  user_id :: int
  user_email :: string
  user_password :: pwhash
  user_name :: string

record task =
  task_id :: int
  owner_id :: int
  title :: string
  description :: "string option"
  completed :: bool
  created_at :: time
  updated_at :: time

text \<open>The two tables, rows in insertion order.\<close>

record db =
  users :: "user list"
  tasks :: "task list"

text \<open>
  An integer primary key that the insert leaves out is one more than the largest key
  of the table (1 in an empty table).
\<close>

definition next_id :: "int list \<Rightarrow> int" where
  "next_id ids = fold max ids 0 + 1"

subsection \<open>Tokens (flask_jwt_extended)\<close>

text \<open>
  The identity put into a token is carried as given: \<open>register\<close> passes the text
  \<open>str(new_user.id)\<close>, \<open>login\<close> passes the integer \<open>user.id\<close>.
\<close>

datatype identity = IdStr string | IdInt int

text \<open>
  A signed token: the key it was signed with, its subject, and the instants it was
  issued at and expires at, both in whole seconds. What the request carries is no
  token, something that is not a token (with what the decoder says of it), or a token.
\<close>

record token =
  signed_with :: nat
  sub :: identity
  iat :: int
  exp :: int

datatype bearer = NoToken | Malformed string | Jwt token

subsection \<open>Responses\<close>

record user_dict =
  ud_id :: int
  ud_email :: string
  ud_name :: string

text \<open>
  The JSON bodies: an object with the one key \<open>error\<close>, \<open>message\<close> or \<open>msg\<close>, the
  token with the user, a task, a page of tasks, and the empty body. A task's JSON
  object holds exactly the columns of its row (\<open>task_to_dict\<close>), so the body
  carries the row.
\<close>

datatype body =
    Error string
  | Message string
  | Msg string
  | Auth token user_dict
  | TaskJson task
  | TaskPage "task list" int int nat
  | Empty

type_synonym response = "body \<times> nat"

definition user_to_dict :: "user \<Rightarrow> user_dict" where
  "user_to_dict u = \<lparr>ud_id = user_id u, ud_email = user_email u, ud_name = user_name u\<rparr>"

definition task_to_dict :: "task \<Rightarrow> task" where
  "task_to_dict t = t"

subsection \<open>Process-wide configuration\<close>

text \<open>
  What is fixed when the module is loaded: the signing secret; the three instants that
  the three calls of \<open>datetime.now(timezone.utc)\<close> returned while the class \<open>Task\<close>
  was defined, in the order of the calls (the default of \<open>created_at\<close>, the default
  of \<open>updated_at\<close>, the \<open>onupdate\<close> of \<open>updated_at\<close>); and the parts the libraries
  supply: the key derivation function, the responses of flask_jwt_extended's loaders
  for an invalid token (from the decoder's message) and for an expired token (the
  source registers only the loader for a missing token), and the database's
  \<open>ORDER BY\<close>, which the source gives no tie-break.
\<close>

datatype sort_col = ByCreatedAt | ByTitle | ByUpdatedAt

record config =
  secret :: nat
  created_default :: time
  updated_default :: time
  updated_onupdate :: time
  kdf :: "string \<Rightarrow> string \<Rightarrow> string"
  invalid_token_loader :: "string \<Rightarrow> response"
  expired_token_loader :: response
  order_by :: "sort_col \<Rightarrow> bool \<Rightarrow> task list \<Rightarrow> task list"

section \<open>Helpers\<close>

text \<open>\<open>str(n)\<close> and \<open>int(s)\<close> on decimal numerals.\<close>

definition digit_char :: "nat \<Rightarrow> char" where
  "digit_char d = char_of (of_char (CHR ''0'') + d)"

fun str_nat :: "nat \<Rightarrow> string" where
  "str_nat n = (if n < 10 then [digit_char n] else str_nat (n div 10) @ [digit_char (n mod 10)])"

declare str_nat.simps [simp del]

definition str_int :: "int \<Rightarrow> string" where
  "str_int i = (if i < 0 then CHR ''-'' # str_nat (nat (- i)) else str_nat (nat i))"

definition is_digit :: "char \<Rightarrow> bool" where
  "is_digit c = (48 \<le> (of_char c :: nat) \<and> (of_char c :: nat) \<le> 57)"

definition digit_val :: "char \<Rightarrow> nat" where
  "digit_val c = of_char c - 48"

text \<open>
  White space as \<open>str.isspace\<close> has it below code point 256: tab to carriage return,
  the four separators 28 to 31, the space, NEL and the no-break space.
\<close>

definition is_space :: "char \<Rightarrow> bool" where
  "is_space c = ((of_char c :: nat) \<in> {9, 10, 11, 12, 13, 28, 29, 30, 31, 32, 133, 160})"

definition strip :: "string \<Rightarrow> string" where
  "strip s = rev (dropWhile is_space (rev (dropWhile is_space s)))"

text \<open>
  The digits of a numeral, read left to right; an underscore may stand between two
  digits. The flag says that the character before was a digit.
\<close>

fun int_digits :: "string \<Rightarrow> nat \<Rightarrow> bool \<Rightarrow> nat option" where
  "int_digits [] acc prev = (if prev then Some acc else None)"
| "int_digits (c # cs) acc prev =
     (if is_digit c then int_digits cs (acc * 10 + digit_val c) True
      else if c = CHR ''_'' \<and> prev \<and> cs \<noteq> [] \<and> is_digit (hd cs) then int_digits cs acc False
      else None)"

text \<open>
  \<open>int(s)\<close>: \<open>None\<close> is the ValueError. The white space \<open>int\<close> drops around the
  numeral is narrower than that of \<open>str.strip\<close>: the four separators 28 to 31 are kept.
\<close>

definition int_space :: "char \<Rightarrow> bool" where
  "int_space c = ((of_char c :: nat) \<in> {9, 10, 11, 12, 13, 32, 133, 160})"

definition int_str :: "string \<Rightarrow> int option" where
  "int_str s =
     (case rev (dropWhile int_space (rev (dropWhile int_space s))) of
        [] \<Rightarrow> None
      | c # cs \<Rightarrow>
          if c = CHR ''-'' then map_option (\<lambda>n. - int n) (int_digits cs 0 False)
          else if c = CHR ''+'' then map_option int (int_digits cs 0 False)
          else map_option int (int_digits (c # cs) 0 False))"

text \<open>
  \<open>str.lower\<close> below code point 256 (the Latin capitals and the accented capitals
  192 to 222 without the multiplication sign), and the \<open>lower\<close> of SQLite, which
  folds the Latin capitals only.
\<close>

definition py_lower_char :: "char \<Rightarrow> char" where
  "py_lower_char c =
     (let n = (of_char c :: nat)
      in if (65 \<le> n \<and> n \<le> 90) \<or> (192 \<le> n \<and> n \<le> 222 \<and> n \<noteq> 215) then char_of (n + 32) else c)"

definition py_lower :: "string \<Rightarrow> string" where
  "py_lower s = map py_lower_char s"

definition sql_lower_char :: "char \<Rightarrow> char" where
  "sql_lower_char c =
     (let n = (of_char c :: nat) in if 65 \<le> n \<and> n \<le> 90 then char_of (n + 32) else c)"

definition sql_lower :: "string \<Rightarrow> string" where
  "sql_lower s = map sql_lower_char s"

text \<open>
  SQL's \<open>LIKE\<close>, pattern first: \<open>%\<close> stands for any run of characters, \<open>_\<close> for
  any one character.
\<close>

fun like :: "string \<Rightarrow> string \<Rightarrow> bool" where
  "like [] [] = True"
| "like [] (c # cs) = False"
| "like (p # ps) [] = (p = CHR ''%'' \<and> like ps [])"
| "like (p # ps) (c # cs) =
     (if p = CHR ''%'' then like ps (c # cs) \<or> like (p # ps) cs
      else (p = CHR ''_'' \<or> p = c) \<and> like ps cs)"

text \<open>
  \<open>column.ilike(pattern)\<close>, which SQLAlchemy writes for SQLite as
  \<open>lower(column) LIKE lower(pattern)\<close>; on a \<open>NULL\<close> column it is not true.
\<close>

definition ilike :: "string option \<Rightarrow> string \<Rightarrow> bool" where
  "ilike col pat = (case col of None \<Rightarrow> False | Some s \<Rightarrow> like (sql_lower pat) (sql_lower s))"

text \<open>
  \<open>paginate_query\<close>: the count of the query and one slice of it. This is what the
  query returns while the offset fits a signed 64-bit integer, the largest SQLite takes
  (\<open>sqlite_max\<close>); the source has no handler for a larger one, and the statements about
  a page keep to that bound.
\<close>

definition sqlite_max :: int where
  "sqlite_max = 9223372036854775807"

definition paginate_query :: "task list \<Rightarrow> int \<Rightarrow> int \<Rightarrow> task list \<times> nat" where
  "paginate_query query page limit =
     (let total = length query;
          skipped = drop (nat ((page - 1) * limit)) query;
          items = (if limit < 0 then skipped else take (nat limit) skipped)
      in (items, total))"

section \<open>Session gate\<close>

definition custom_unauthorized_response :: response where
  "custom_unauthorized_response = (Error ''Missing or invalid token'', 401)"

definition server_error :: response where
  "server_error = (Error ''Server error'', 500)"

text \<open>
  \<open>JWT_ACCESS_TOKEN_EXPIRES\<close> is one hour. The token carries the instant of issue and
  the expiry cut to whole seconds.
\<close>

definition create_access_token :: "config \<Rightarrow> time \<Rightarrow> identity \<Rightarrow> token" where
  "create_access_token cfg now ident =
     \<lparr>signed_with = secret cfg, sub = ident, iat = now div 1000000,
      exp = now div 1000000 + 3600\<rparr>"

text \<open>
  \<open>@jwt_required()\<close> followed by \<open>get_jwt_identity()\<close>: the response that ends the
  request, or the subject of the token. The decoder checks the signature, then the
  instant of issue, then the expiry, then that the subject is a text; each failure but
  the expiry goes to the loader for an invalid token with the decoder's message.
\<close>

definition jwt_required :: "config \<Rightarrow> time \<Rightarrow> bearer \<Rightarrow> response + string" where
  "jwt_required cfg now b =
     (case b of
        NoToken \<Rightarrow> Inl custom_unauthorized_response
      | Malformed msg \<Rightarrow> Inl (invalid_token_loader cfg msg)
      | Jwt t \<Rightarrow>
          if signed_with t \<noteq> secret cfg
          then Inl (invalid_token_loader cfg ''Signature verification failed'')
          else if now < iat t * 1000000
          then Inl (invalid_token_loader cfg ''The token is not yet valid (iat)'')
          else if exp t * 1000000 \<le> now then Inl (expired_token_loader cfg)
          else (case sub t of
                  IdInt i \<Rightarrow> Inl (invalid_token_loader cfg ''Subject must be a string'')
                | IdStr s \<Rightarrow> Inr s))"

text \<open>
  The acting user of a protected route: the gate, then \<open>int(get_jwt_identity())\<close>,
  whose ValueError is an unhandled fault.
\<close>

definition current_user :: "config \<Rightarrow> time \<Rightarrow> bearer \<Rightarrow> response + int" where
  "current_user cfg now b =
     (case jwt_required cfg now b of
        Inl r \<Rightarrow> Inl r
      | Inr ident \<Rightarrow> (case int_str ident of None \<Rightarrow> Inl server_error | Some uid \<Rightarrow> Inr uid))"

section \<open>Routes\<close>

text \<open>
  Each handler takes the configuration, the clock, the store and the request, and
  returns its response with the store as the request leaves it. A handler writes to the
  store only where the source calls \<open>db.session.commit()\<close>: the session of a request
  that returns before is dropped with whatever it changed on its objects.
\<close>

text \<open>The text of a value known to be one (after the test \<open>not x\<close>).\<close>

fun text_of :: "string option \<Rightarrow> string" where
  "text_of None = []"
| "text_of (Some s) = s"

record register_json =
  rj_name :: "string field"
  rj_email :: "string field"
  rj_password :: "string field"

definition register :: "config \<Rightarrow> string \<Rightarrow> time \<Rightarrow> db \<Rightarrow> register_json \<Rightarrow> response \<times> db" where
  "register cfg salt now d data =
     (let name = dict_get (rj_name data);
          email = dict_get (rj_email data);
          password = dict_get (rj_password data)
      in if \<not> truthy name \<or> \<not> truthy email \<or> \<not> truthy password
         then ((Error ''Missing required fields: name, email, password'', 400), d)
         else if find (\<lambda>u. user_email u = text_of email) (users d) \<noteq> None
         then ((Error ''Email already registered'', 409), d)
         else
           let hashed_password = generate_password_hash (kdf cfg) salt (text_of password);
               new_user = \<lparr>user_id = next_id (map user_id (users d)), user_email = text_of email,
                           user_password = hashed_password, user_name = text_of name\<rparr>;
               d' = d\<lparr>users := users d @ [new_user]\<rparr>;
               access_token = create_access_token cfg now (IdStr (str_int (user_id new_user)))
           in ((Auth access_token (user_to_dict new_user), 201), d'))"

record login_json =
  lj_email :: "string field"
  lj_password :: "string field"

definition login :: "config \<Rightarrow> time \<Rightarrow> db \<Rightarrow> login_json \<Rightarrow> response \<times> db" where
  "login cfg now d data =
     (let email = dict_get (lj_email data);
          password = dict_get (lj_password data)
      in if \<not> truthy email \<or> \<not> truthy password
         then ((Error ''Missing required fields: email, password'', 400), d)
         else
           (case find (\<lambda>u. user_email u = text_of email) (users d) of
              None \<Rightarrow> ((Error ''Invalid credentials'', 401), d)
            | Some u \<Rightarrow>
                if \<not> check_password_hash (kdf cfg) (user_password u) (text_of password)
                then ((Error ''Invalid credentials'', 401), d)
                else ((Auth (create_access_token cfg now (IdInt (user_id u))) (user_to_dict u), 200), d)))"

text \<open>
  The column defaults of \<open>Task\<close> are values, not callables: \<open>completed\<close> is
  \<open>False\<close>, and \<open>created_at\<close> and \<open>updated_at\<close> are the instants computed once, when
  the class was defined.
\<close>

record task_json =
  tj_title :: "string field"
  tj_description :: "string field"

definition add_new_task :: "config \<Rightarrow> time \<Rightarrow> db \<Rightarrow> bearer \<Rightarrow> task_json \<Rightarrow> response \<times> db" where
  "add_new_task cfg now d b data =
     (case current_user cfg now b of
        Inl r \<Rightarrow> (r, d)
      | Inr current_user_id \<Rightarrow>
          let title' = dict_get (tj_title data);
              description' = dict_get_default [] (tj_description data)
          in if \<not> truthy title'
             then ((Error ''Missing required field: title'', 400), d)
             else
               let new_task = \<lparr>task_id = next_id (map task_id (tasks d)), owner_id = current_user_id,
                               title = text_of title', description = description', completed = False,
                               created_at = created_default cfg, updated_at = updated_default cfg\<rparr>
               in ((TaskJson (task_to_dict new_task), 201), d\<lparr>tasks := tasks d @ [new_task]\<rparr>))"

text \<open>
  The commit of an update writes the row only if a column changed, and then
  \<open>onupdate\<close> sets \<open>updated_at\<close>: to the value given when the class was defined.
\<close>

definition commit_task :: "config \<Rightarrow> db \<Rightarrow> task \<Rightarrow> task \<Rightarrow> task \<times> db" where
  "commit_task cfg d old new =
     (if new = old then (old, d)
      else
        let row = new\<lparr>updated_at := updated_onupdate cfg\<rparr>
        in (row, d\<lparr>tasks := map (\<lambda>t. if task_id t = task_id old then row else t) (tasks d)\<rparr>))"

record patch_json =
  pj_title :: "json field"
  pj_description :: "string field"
  pj_completed :: "json field"

definition update_task :: "config \<Rightarrow> time \<Rightarrow> db \<Rightarrow> bearer \<Rightarrow> int \<Rightarrow> patch_json \<Rightarrow> response \<times> db" where
  "update_task cfg now d b tid data =
     (case current_user cfg now b of
        Inl r \<Rightarrow> (r, d)
      | Inr current_user_id \<Rightarrow>
          (case find (\<lambda>t. task_id t = tid) (tasks d) of
             None \<Rightarrow> ((Error ''Task not found'', 404), d)
           | Some task0 \<Rightarrow>
               if owner_id task0 \<noteq> current_user_id then ((Message ''Forbidden'', 403), d)
               else
                 (case (case dict_get (pj_title data) of
                          None \<Rightarrow> Inr task0
                        | Some (JStr s) \<Rightarrow>
                            if strip s = [] then Inl (Error ''Invalid title'', 400::nat)
                            else Inr (task0\<lparr>title := strip s\<rparr>)
                        | Some _ \<Rightarrow> Inl (Error ''Invalid title'', 400)) of
                    Inl r \<Rightarrow> (r, d)
                  | Inr task1 \<Rightarrow>
                      let task2 = (case dict_get (pj_description data) of
                                     None \<Rightarrow> task1
                                   | Some s \<Rightarrow> task1\<lparr>description := Some s\<rparr>)
                      in (case dict_get (pj_completed data) of
                            None \<Rightarrow>
                              (let (row, d') = commit_task cfg d task0 task2
                               in ((TaskJson (task_to_dict row), 200), d'))
                          | Some (JBool c) \<Rightarrow>
                              (let (row, d') = commit_task cfg d task0 (task2\<lparr>completed := c\<rparr>)
                               in ((TaskJson (task_to_dict row), 200), d'))
                          | Some _ \<Rightarrow> ((Error ''completed must be boolean'', 400), d)))))"

definition delete_task :: "config \<Rightarrow> time \<Rightarrow> db \<Rightarrow> bearer \<Rightarrow> int \<Rightarrow> response \<times> db" where
  "delete_task cfg now d b tid =
     (case current_user cfg now b of
        Inl r \<Rightarrow> (r, d)
      | Inr current_user_id \<Rightarrow>
          (case find (\<lambda>t. task_id t = tid) (tasks d) of
             None \<Rightarrow> ((Error ''Task not found'', 404), d)
           | Some task0 \<Rightarrow>
               if owner_id task0 \<noteq> current_user_id then ((Message ''Forbidden'', 403), d)
               else ((Empty, 204), d\<lparr>tasks := filter (\<lambda>t. task_id t \<noteq> task_id task0) (tasks d)\<rparr>)))"

text \<open>
  The query string of \<open>GET /todos\<close>. \<open>page\<close> and \<open>limit\<close> are read with
  \<open>type=int\<close>: a value that is missing or is not an integer numeral is \<open>None\<close> here and
  takes the default.
\<close>

record list_args =
  arg_page :: "int option"
  arg_limit :: "int option"
  arg_completed :: "string option"
  arg_search :: "string option"
  arg_sort :: "string option"
  arg_order :: "string option"

definition args_get :: "'a \<Rightarrow> 'a option \<Rightarrow> 'a" where
  "args_get d v = (case v of None \<Rightarrow> d | Some x \<Rightarrow> x)"

text \<open>The filter on \<open>completed\<close>; the response is the 400 of a value it does not know.\<close>

definition filter_completed :: "string option \<Rightarrow> task list \<Rightarrow> response + task list" where
  "filter_completed completed_param q =
     (case completed_param of
        None \<Rightarrow> Inr q
      | Some c \<Rightarrow>
          if py_lower c \<in> set [''true'', ''1''] then Inr (filter (\<lambda>t. completed t) q)
          else if py_lower c \<in> set [''false'', ''0''] then Inr (filter (\<lambda>t. \<not> completed t) q)
          else Inl (Error ''Invalid 'completed' query parameter, use true/false'', 400))"

definition filter_search :: "string option \<Rightarrow> task list \<Rightarrow> task list" where
  "filter_search search q =
     (if truthy search
      then let pat = ''%'' @ text_of search @ ''%''
           in filter (\<lambda>t. ilike (Some (title t)) pat \<or> ilike (description t) pat) q
      else q)"

definition sort_column :: "string option \<Rightarrow> sort_col" where
  "sort_column sort_param =
     (let sort = args_get ''created_at'' sort_param
      in if sort = ''title'' then ByTitle
         else if sort = ''updated_at'' then ByUpdatedAt
         else ByCreatedAt)"

definition sort_desc :: "string option \<Rightarrow> bool" where
  "sort_desc order_param = (py_lower (args_get ''desc'' order_param) = ''desc'')"

definition get_tasks :: "config \<Rightarrow> time \<Rightarrow> db \<Rightarrow> bearer \<Rightarrow> list_args \<Rightarrow> response" where
  "get_tasks cfg now d b args =
     (case current_user cfg now b of
        Inl r \<Rightarrow> r
      | Inr current_user_id \<Rightarrow>
          let page0 = args_get 1 (arg_page args);
              limit0 = args_get 10 (arg_limit args);
              page = (if page0 < 1 then 1 else page0);
              limit = (if limit0 < 1 \<or> limit0 > 100 then 10 else limit0);
              q = filter (\<lambda>t. owner_id t = current_user_id) (tasks d)
          in (case filter_completed (arg_completed args) q of
                Inl r \<Rightarrow> r
              | Inr q1 \<Rightarrow>
                  let q2 = filter_search (arg_search args) q1;
                      q3 = order_by cfg (sort_column (arg_sort args)) (sort_desc (arg_order args)) q2;
                      (items, total) = paginate_query q3 page limit
                  in (TaskPage (map task_to_dict items) page limit total, 200)))"

section \<open>A database engine and a running instance\<close>

text \<open>
  One \<open>ORDER BY\<close> the engine may implement: an insertion sort on the column that
  leaves rows of equal key in the order of the query.
\<close>

fun str_le :: "string \<Rightarrow> string \<Rightarrow> bool" where
  "str_le [] ys = True"
| "str_le (x # xs) [] = False"
| "str_le (x # xs) (y # ys) =
     ((of_char x :: nat) < of_char y \<or> (x = y \<and> str_le xs ys))"

fun key_le :: "sort_col \<Rightarrow> task \<Rightarrow> task \<Rightarrow> bool" where
  "key_le ByCreatedAt a b = (created_at a \<le> created_at b)"
| "key_le ByTitle a b = str_le (title a) (title b)"
| "key_le ByUpdatedAt a b = (updated_at a \<le> updated_at b)"

fun insert_row :: "(task \<Rightarrow> task \<Rightarrow> bool) \<Rightarrow> task \<Rightarrow> task list \<Rightarrow> task list" where
  "insert_row le x [] = [x]"
| "insert_row le x (y # ys) = (if le x y then x # y # ys else y # insert_row le x ys)"

definition stable_order_by :: "sort_col \<Rightarrow> bool \<Rightarrow> task list \<Rightarrow> task list" where
  "stable_order_by col desc q =
     foldr (insert_row (\<lambda>a b. if desc then key_le col b a else key_le col a b)) q []"

text \<open>
  An instance: its configuration (the loaders for an invalid and an expired token as
  flask_jwt_extended ships them), two users and three tasks, and the tokens of the two
  users.
\<close>

definition demo_config :: config where
  "demo_config =
     \<lparr>secret = 42, created_default = 1000, updated_default = 1001, updated_onupdate = 1002,
      kdf = (\<lambda>salt pw. salt @ CHR ''$'' # pw),
      invalid_token_loader = (\<lambda>msg. (Msg msg, 422)),
      expired_token_loader = (Msg ''Token has expired'', 401),
      order_by = stable_order_by\<rparr>"

definition alice :: user where
  "alice = \<lparr>user_id = 1, user_email = ''alice@example.com'',
            user_password = generate_password_hash (kdf demo_config) ''s1'' ''secret123'',
            user_name = ''Alice''\<rparr>"

definition bob :: user where
  "bob = \<lparr>user_id = 2, user_email = ''bob@example.com'',
          user_password = generate_password_hash (kdf demo_config) ''s2'' ''1234'',
          user_name = ''Bob''\<rparr>"

definition milk :: task where
  "milk = \<lparr>task_id = 1, owner_id = 1, title = ''Buy milk'', description = Some ''2 liters'',
           completed = False, created_at = 1000, updated_at = 1001\<rparr>"

definition eggs :: task where
  "eggs = \<lparr>task_id = 2, owner_id = 1, title = ''Buy eggs'', description = Some [],
           completed = True, created_at = 1000, updated_at = 1001\<rparr>"

definition house :: task where
  "house = \<lparr>task_id = 3, owner_id = 2, title = ''Clean house'', description = None,
            completed = False, created_at = 1000, updated_at = 1001\<rparr>"

definition demo_db :: db where
  "demo_db = \<lparr>users = [alice, bob], tasks = [milk, eggs, house]\<rparr>"

definition alice_token :: bearer where
  "alice_token = Jwt (create_access_token demo_config 2000 (IdStr (str_int 1)))"


definition bad_patch :: patch_json where
  "bad_patch = \<lparr>pj_title = Val (JStr ''Buy oat milk''), pj_description = Val ''1 liter'',
                 pj_completed = Val (JStr ''yes'')\<rparr>"

definition whitespace_task :: task_json where
  "whitespace_task = \<lparr>tj_title = Val ''   '', tj_description = Absent\<rparr>"

definition new_title_patch :: patch_json where
  "new_title_patch = \<lparr>pj_title = Val (JStr ''  New  ''), pj_description = Absent,
                       pj_completed = Absent\<rparr>"

definition old_json :: task_json where
  "old_json = \<lparr>tj_title = Val ''Old'', tj_description = Absent\<rparr>"

definition done_patch :: patch_json where
  "done_patch = \<lparr>pj_title = Absent, pj_description = Absent, pj_completed = Val (JBool True)\<rparr>"

definition carol_json :: register_json where
  "carol_json = \<lparr>rj_name = Val ''Carol'', rj_email = Val ''carol@example.com'',
                  rj_password = Val ''pw''\<rparr>"

definition carol_login :: login_json where
  "carol_login = \<lparr>lj_email = Val ''carol@example.com'', lj_password = Val ''pw''\<rparr>"

definition alice_args :: list_args where
  "alice_args = \<lparr>arg_page = None, arg_limit = None, arg_completed = None,
                  arg_search = Some ''buy'', arg_sort = None, arg_order = None\<rparr>"

text \<open>Reading a response to \<open>GET /todos\<close>: the tasks of its page and its total.\<close>

fun items_of :: "response \<Rightarrow> task list" where
  "items_of (TaskPage items page limit n, st) = items"
| "items_of r = []"

fun total_of :: "response \<Rightarrow> nat" where
  "total_of (TaskPage items page limit n, st) = n"
| "total_of r = 0"

text \<open>
  Walking the pages of a listing: the number of pages that \<open>n\<close> tasks take at \<open>lim\<close> a
  page, the response to page \<open>p\<close>, and the responses to the pages from 1 to that number.
\<close>

definition page_count :: "nat \<Rightarrow> int \<Rightarrow> nat" where
  "page_count n lim = (n + nat lim - 1) div nat lim"

definition fetch_page :: "config \<Rightarrow> time \<Rightarrow> db \<Rightarrow> bearer \<Rightarrow> list_args \<Rightarrow> int \<Rightarrow> nat \<Rightarrow> response" where
  "fetch_page cfg now d b args lim p =
     get_tasks cfg now d b (args\<lparr>arg_page := Some (int p), arg_limit := Some lim\<rparr>)"

definition fetch_pages :: "config \<Rightarrow> time \<Rightarrow> db \<Rightarrow> bearer \<Rightarrow> list_args \<Rightarrow> int \<Rightarrow> nat \<Rightarrow> response list" where
  "fetch_pages cfg now d b args lim n = map (fetch_page cfg now d b args lim) [1..<Suc (page_count n lim)]"

section \<open>Ownership and existence\<close>


lemma find_no_key:
  "k \<notin> f ` set xs \<Longrightarrow> find (\<lambda>y. f y = k) xs = None"
  by (induction xs) auto



section \<open>Failed updates\<close>

text \<open>
  Claim C5. An update that does not answer 200 (whether it is stopped at the gate, finds
  no task, is forbidden, or rejects the title or the completed flag, the latter after a
  valid title or description of the same patch was set on the session's object)
  returns the store it was given: every field of every stored task is as before.
\<close>

theorem failed_update_leaves_store:
  assumes "snd (fst (update_task cfg now d b tid patch)) \<noteq> 200"
  shows "snd (update_task cfg now d b tid patch) = d"
  using assms
  by (auto simp: update_task_def commit_task_def Let_def
      split: sum.splits option.splits json.splits if_splits prod.splits)

theorem failed_update_leaves_store_witness:
  "snd (fst (update_task demo_config 2500 demo_db alice_token 1 bad_patch)) = 400 \<and>
   snd (update_task demo_config 2500 demo_db alice_token 1 bad_patch) = demo_db \<and>
   find (\<lambda>t. task_id t = 1) (tasks demo_db) = Some milk"
proof -
  have h: "snd (fst (update_task demo_config 2500 demo_db alice_token 1 bad_patch)) = 400"
    by code_simp
  have f: "find (\<lambda>t. task_id t = 1) (tasks demo_db) = Some milk" by code_simp
  from h have "snd (fst (update_task demo_config 2500 demo_db alice_token 1 bad_patch)) \<noteq> 200"
    by simp
  from failed_update_leaves_store [OF this] h f show ?thesis by simp
qed

section \<open>Registration, login and the token\<close>

lemma find_appended:
  "k \<notin> f ` set xs \<Longrightarrow> f x = k \<Longrightarrow> find (\<lambda>y. f y = k) (xs @ [x]) = Some x"
  by (induction xs) auto

text \<open>
  Claim C1, where the code departs from it. Let the registration carry a non-empty
  name, email and password, the email not being that of a stored user. Then
  \<open>register\<close> answers 201 and stores a new user \<open>u\<close>, with a token whose subject is the
  text of the id of \<open>u\<close>; a \<open>login\<close> with the same email and password on the resulting
  store answers 200 for the same user, with a token whose subject is the id of \<open>u\<close> as
  an integer. The gate of the protected routes resolves that token to no user at any
  instant: from the login to the expiry it answers as for an invalid token, the
  subject not being a text.
\<close>

theorem login_token_refused:
  assumes "rj_name data = Val n" and "n \<noteq> []"
    and "rj_email data = Val e" and "e \<noteq> []"
    and "rj_password data = Val p" and "p \<noteq> []"
    and "e \<notin> user_email ` set (users d)"
  shows "\<exists>u tok1 tok2 d'.
           register cfg salt now1 d data = ((Auth tok1 (user_to_dict u), 201), d') \<and>
           users d' = users d @ [u] \<and> user_email u = e \<and> user_name u = n \<and>
           sub tok1 = IdStr (str_int (user_id u)) \<and>
           login cfg now2 d' \<lparr>lj_email = Val e, lj_password = Val p\<rparr>
             = ((Auth tok2 (user_to_dict u), 200), d') \<and>
           sub tok2 = IdInt (user_id u) \<and>
           (\<forall>now3. now2 \<le> now3 \<and> now3 < (now2 div 1000000 + 3600) * 1000000 \<longrightarrow>
              current_user cfg now3 (Jwt tok2)
                = Inl (invalid_token_loader cfg ''Subject must be a string'')) \<and>
           (\<forall>now3. \<exists>r. current_user cfg now3 (Jwt tok2) = Inl r)"
proof -
  define u where "u = \<lparr>user_id = next_id (map user_id (users d)), user_email = e,
      user_password = generate_password_hash (kdf cfg) salt p, user_name = n\<rparr>"
  define d' where "d' = d\<lparr>users := users d @ [u]\<rparr>"
  define tok1 where "tok1 = create_access_token cfg now1 (IdStr (str_int (user_id u)))"
  define tok2 where "tok2 = create_access_token cfg now2 (IdInt (user_id u))"
  have absent: "find (\<lambda>y. user_email y = e) (users d) = None"
    using assms(7) by (rule find_no_key)
  have reg: "register cfg salt now1 d data = ((Auth tok1 (user_to_dict u), 201), d')"
    using assms(1-6) absent by (simp add: register_def Let_def u_def d'_def tok1_def)
  have found: "find (\<lambda>y. user_email y = e) (users d') = Some u"
    unfolding d'_def using find_appended [OF assms(7), of u] by (simp add: u_def)
  have pw: "check_password_hash (kdf cfg) (user_password u) p"
    by (simp add: check_password_hash_def generate_password_hash_def u_def)
  have log: "login cfg now2 d' \<lparr>lj_email = Val e, lj_password = Val p\<rparr>
      = ((Auth tok2 (user_to_dict u), 200), d')"
    using assms(4,6) found pw by (simp add: login_def Let_def tok2_def)
  have issued: "now2 div 1000000 * 1000000 \<le> now2"
    by simp
  have refused: "current_user cfg now3 (Jwt tok2)
      = Inl (invalid_token_loader cfg ''Subject must be a string'')"
    if "now2 \<le> now3 \<and> now3 < (now2 div 1000000 + 3600) * 1000000" for now3
  proof -
    from that issued have "\<not> now3 < now2 div 1000000 * 1000000" by linarith
    moreover from that have "\<not> (now2 div 1000000 + 3600) * 1000000 \<le> now3" by simp
    ultimately show ?thesis
      by (simp add: current_user_def jwt_required_def tok2_def create_access_token_def)
  qed
  have never: "\<exists>r. current_user cfg now3 (Jwt tok2) = Inl r" for now3
    by (simp add: current_user_def jwt_required_def tok2_def create_access_token_def)
  have "users d' = users d @ [u]" "user_email u = e" "user_name u = n"
    "sub tok1 = IdStr (str_int (user_id u))" "sub tok2 = IdInt (user_id u)"
    by (simp_all add: d'_def u_def tok1_def tok2_def create_access_token_def)
  with reg log refused never show ?thesis by blast
qed

theorem login_token_refused_witness:
  "rj_name carol_json = Val ''Carol'' \<and> rj_email carol_json = Val ''carol@example.com'' \<and>
   rj_password carol_json = Val ''pw'' \<and>
   ''carol@example.com'' \<notin> user_email ` set (users demo_db) \<and>
   (\<exists>u tok1 tok2 d'.
      register demo_config ''s3'' 2000 demo_db carol_json = ((Auth tok1 (user_to_dict u), 201), d') \<and>
      users d' = users demo_db @ [u] \<and> user_email u = ''carol@example.com'' \<and>
      login demo_config 2100 d' carol_login = ((Auth tok2 (user_to_dict u), 200), d') \<and>
      sub tok2 = IdInt (user_id u) \<and>
      current_user demo_config 5699 (Jwt tok2) = Inl (Msg ''Subject must be a string'', 422)) \<and>
   (case fst (fst (register demo_config ''s3'' 2000 demo_db carol_json)) of
      Auth tok1 ud \<Rightarrow> current_user demo_config 5699 (Jwt tok1) = Inr (ud_id ud) \<and> ud_id ud = 3
    | _ \<Rightarrow> False)"
proof -
  have h1: "rj_name carol_json = Val ''Carol''" by code_simp
  have h2: "rj_email carol_json = Val ''carol@example.com''" by code_simp
  have h3: "rj_password carol_json = Val ''pw''" by code_simp
  have h4: "''carol@example.com'' \<notin> user_email ` set (users demo_db)" by code_simp
  have h5: "(case fst (fst (register demo_config ''s3'' 2000 demo_db carol_json)) of
      Auth tok1 ud \<Rightarrow> current_user demo_config 5699 (Jwt tok1) = Inr (ud_id ud) \<and> ud_id ud = 3
    | _ \<Rightarrow> False)" by code_simp
  have l: "carol_login = \<lparr>lj_email = Val ''carol@example.com'', lj_password = Val ''pw''\<rparr>"
    by (simp add: carol_login_def)
  have i: "invalid_token_loader demo_config ''Subject must be a string''
      = (Msg ''Subject must be a string'', 422)"
    by (simp add: demo_config_def)
  have "\<exists>u tok1 tok2 d'.
      register demo_config ''s3'' 2000 demo_db carol_json = ((Auth tok1 (user_to_dict u), 201), d') \<and>
      users d' = users demo_db @ [u] \<and> user_email u = ''carol@example.com'' \<and>
      user_name u = ''Carol'' \<and> sub tok1 = IdStr (str_int (user_id u)) \<and>
      login demo_config 2100 d' \<lparr>lj_email = Val ''carol@example.com'', lj_password = Val ''pw''\<rparr>
        = ((Auth tok2 (user_to_dict u), 200), d') \<and>
      sub tok2 = IdInt (user_id u) \<and>
      (\<forall>now3. 2100 \<le> now3 \<and> now3 < (2100 div 1000000 + 3600) * 1000000 \<longrightarrow>
         current_user demo_config now3 (Jwt tok2)
           = Inl (invalid_token_loader demo_config ''Subject must be a string'')) \<and>
      (\<forall>now3. \<exists>r. current_user demo_config now3 (Jwt tok2) = Inl r)"
    by (rule login_token_refused [OF h1 _ h2 _ h3 _ h4]) simp_all
  then obtain u tok1 tok2 d' where
    r1: "register demo_config ''s3'' 2000 demo_db carol_json = ((Auth tok1 (user_to_dict u), 201), d')"
    and r2: "users d' = users demo_db @ [u]"
    and r3: "user_email u = ''carol@example.com''"
    and r4: "login demo_config 2100 d' \<lparr>lj_email = Val ''carol@example.com'', lj_password = Val ''pw''\<rparr>
        = ((Auth tok2 (user_to_dict u), 200), d')"
    and r5: "sub tok2 = IdInt (user_id u)"
    and v: "\<forall>now3. 2100 \<le> now3 \<and> now3 < (2100 div 1000000 + 3600) * 1000000 \<longrightarrow>
         current_user demo_config now3 (Jwt tok2)
           = Inl (invalid_token_loader demo_config ''Subject must be a string'')"
    by (elim exE conjE) (rule that)
  have "(2100::int) \<le> 5699 \<and> (5699::int) < (2100 div 1000000 + 3600) * 1000000"
    by simp
  with v have "current_user demo_config 5699 (Jwt tok2)
      = Inl (invalid_token_loader demo_config ''Subject must be a string'')"
    by blast
  then have r6: "current_user demo_config 5699 (Jwt tok2) = Inl (Msg ''Subject must be a string'', 422)"
    unfolding i .
  have ex: "\<exists>u tok1 tok2 d'.
      register demo_config ''s3'' 2000 demo_db carol_json = ((Auth tok1 (user_to_dict u), 201), d') \<and>
      users d' = users demo_db @ [u] \<and> user_email u = ''carol@example.com'' \<and>
      login demo_config 2100 d' carol_login = ((Auth tok2 (user_to_dict u), 200), d') \<and>
      sub tok2 = IdInt (user_id u) \<and>
      current_user demo_config 5699 (Jwt tok2) = Inl (Msg ''Subject must be a string'', 422)"
    unfolding l using r1 r2 r3 r4 r5 r6 by (intro exI conjI)
  show ?thesis
    by (intro conjI h1 h2 h3 h4 h5 ex)
qed

section \<open>Listing tasks\<close>

lemma map_task_to_dict: "map task_to_dict xs = xs"
  by (induction xs) (simp_all add: task_to_dict_def)

text \<open>
  Claim C7. For an authenticated listing whose \<open>completed\<close> value is accepted, the page
  used is the supplied one raised to at least 1 (1 when none is supplied) and the limit
  used is the supplied one if it lies in 1..100 and 10 otherwise (10 when none is
  supplied, never the nearest bound). Where the offset these two give fits a signed
  64-bit integer, the listing answers 200, its items are the slice of the ordered query
  that the two values select, and it reports the same two values.
\<close>

theorem page_and_limit_normalised:
  assumes "current_user cfg now b = Inr uid"
    and "filter_completed (arg_completed args) (filter (\<lambda>t. owner_id t = uid) (tasks d)) = Inr q1"
  shows "let page = (case arg_page args of None \<Rightarrow> 1 | Some p \<Rightarrow> max 1 p);
             limit = (case arg_limit args of None \<Rightarrow> 10
                      | Some l \<Rightarrow> if 1 \<le> l \<and> l \<le> 100 then l else 10);
             q3 = order_by cfg (sort_column (arg_sort args)) (sort_desc (arg_order args))
                    (filter_search (arg_search args) q1)
         in (page - 1) * limit \<le> sqlite_max \<longrightarrow>
            get_tasks cfg now d b args =
              (TaskPage (take (nat limit) (drop (nat ((page - 1) * limit)) q3)) page limit (length q3), 200)"
  using assms
  by (auto simp: get_tasks_def args_get_def paginate_query_def Let_def map_task_to_dict max_def
      split: option.splits)

theorem page_and_limit_normalised_witness:
  "current_user demo_config 2500 alice_token = Inr 1 \<and>
   filter_completed (arg_completed alice_args) (filter (\<lambda>t. owner_id t = 1) (tasks demo_db))
     = Inr [milk, eggs] \<and>
   (1 - 1) * 10 \<le> sqlite_max \<and>
   get_tasks demo_config 2500 demo_db alice_token (alice_args\<lparr>arg_page := Some 0, arg_limit := Some 101\<rparr>)
     = (TaskPage [milk, eggs] 1 10 2, 200) \<and>
   get_tasks demo_config 2500 demo_db alice_token (alice_args\<lparr>arg_page := Some (- 3), arg_limit := Some 0\<rparr>)
     = (TaskPage [milk, eggs] 1 10 2, 200)"
proof -
  have h1: "current_user demo_config 2500 alice_token = Inr 1" by code_simp
  have h2: "filter_completed (arg_completed alice_args) (filter (\<lambda>t. owner_id t = 1) (tasks demo_db))
      = Inr [milk, eggs]" by code_simp
  have h2a: "filter_completed (arg_completed (alice_args\<lparr>arg_page := Some 0, arg_limit := Some 101\<rparr>))
      (filter (\<lambda>t. owner_id t = 1) (tasks demo_db)) = Inr [milk, eggs]" by code_simp
  have h2b: "filter_completed (arg_completed (alice_args\<lparr>arg_page := Some (- 3), arg_limit := Some 0\<rparr>))
      (filter (\<lambda>t. owner_id t = 1) (tasks demo_db)) = Inr [milk, eggs]" by code_simp
  have q: "order_by demo_config (sort_column (arg_sort alice_args)) (sort_desc (arg_order alice_args))
      (filter_search (arg_search alice_args) [milk, eggs]) = [milk, eggs]" by code_simp
  have m: "(1 - 1) * 10 \<le> sqlite_max" by (simp add: sqlite_max_def)
  show ?thesis
    using page_and_limit_normalised [OF h1 h2a] page_and_limit_normalised [OF h1 h2b] h1 h2 q m
    by (simp add: Let_def)
qed

lemma lower_True: "py_lower ''True'' = ''true''"
  by code_simp

lemma lower_FALSE: "py_lower ''FALSE'' = ''false''"
  by code_simp

lemma lower_fixed:
  "py_lower ''true'' = ''true''" "py_lower ''false'' = ''false''"
  "py_lower ''1'' = ''1''" "py_lower ''0'' = ''0''"
  by code_simp+

text \<open>
  Claim C9. In the \<open>completed\<close> filter of the listing, \<open>1\<close> selects what \<open>true\<close> selects
  and \<open>0\<close> what \<open>false\<close> selects; values that differ only in case are treated alike
  (\<open>True\<close>, \<open>FALSE\<close>); and the filter answers with an error, which is a 400, exactly when
  a value is present and its lower-case form is none of \<open>true\<close>, \<open>1\<close>, \<open>false\<close>,
  \<open>0\<close>.
\<close>

theorem completed_param_values:
  "filter_completed (Some ''true'') q = Inr (filter completed q) \<and>
   filter_completed (Some ''1'') q = Inr (filter completed q) \<and>
   filter_completed (Some ''false'') q = Inr (filter (\<lambda>t. \<not> completed t) q) \<and>
   filter_completed (Some ''0'') q = Inr (filter (\<lambda>t. \<not> completed t) q) \<and>
   filter_completed (Some ''True'') q = Inr (filter completed q) \<and>
   filter_completed (Some ''FALSE'') q = Inr (filter (\<lambda>t. \<not> completed t) q) \<and>
   (py_lower c = py_lower c' \<longrightarrow> filter_completed (Some c) q = filter_completed (Some c') q) \<and>
   ((\<exists>r. filter_completed p q = Inl r) \<longleftrightarrow>
      (\<exists>v. p = Some v \<and> py_lower v \<notin> {''true'', ''1'', ''false'', ''0''})) \<and>
   (\<forall>r. filter_completed p q = Inl r \<longrightarrow> snd r = 400)"
  by (auto simp: filter_completed_def lower_True lower_FALSE lower_fixed split: option.splits)

theorem completed_param_values_witness:
  "py_lower ''tRuE'' = py_lower ''TRUE'' \<and>
   filter_completed (Some ''tRuE'') [milk, eggs] = filter_completed (Some ''TRUE'') [milk, eggs] \<and>
   filter_completed (Some ''1'') [milk, eggs] = Inr [eggs] \<and>
   filter_completed (Some ''0'') [milk, eggs] = Inr [milk] \<and>
   filter_completed (Some ''banana'') [milk, eggs]
     = Inl (Error ''Invalid 'completed' query parameter, use true/false'', 400) \<and>
   snd (Error ''Invalid 'completed' query parameter, use true/false'', 400 :: nat) = 400"
proof -
  have h: "py_lower ''tRuE'' = py_lower ''TRUE''" by code_simp
  have f: "filter completed [milk, eggs] = [eggs]" "filter (\<lambda>t. \<not> completed t) [milk, eggs] = [milk]"
    by code_simp+
  have e: "filter_completed (Some ''banana'') [milk, eggs]
      = Inl (Error ''Invalid 'completed' query parameter, use true/false'', 400)" by code_simp
  show ?thesis
    using completed_param_values [of "[milk, eggs]" "''tRuE''" "''TRUE''" "Some ''banana''"] h f e
    by simp
qed

text \<open>
  Claim C10. A listing whose \<open>search\<close> is the empty string gets the response of the same
  listing with no \<open>search\<close>: the same items in the same order, and the same total.
\<close>

theorem empty_search_same_as_absent:
  "get_tasks cfg now d b (args\<lparr>arg_search := Some []\<rparr>) = get_tasks cfg now d b (args\<lparr>arg_search := None\<rparr>)"
  by (simp add: get_tasks_def filter_search_def Let_def cong: sum.case_cong)

theorem empty_search_same_as_absent_witness:
  "get_tasks demo_config 2500 demo_db alice_token (alice_args\<lparr>arg_search := Some []\<rparr>)
     = get_tasks demo_config 2500 demo_db alice_token (alice_args\<lparr>arg_search := None\<rparr>) \<and>
   get_tasks demo_config 2500 demo_db alice_token (alice_args\<lparr>arg_search := None\<rparr>)
     = (TaskPage [milk, eggs] 1 10 2, 200)"
proof -
  have "get_tasks demo_config 2500 demo_db alice_token (alice_args\<lparr>arg_search := None\<rparr>)
      = (TaskPage [milk, eggs] 1 10 2, 200)" by code_simp
  with empty_search_same_as_absent [of demo_config 2500 demo_db alice_token alice_args]
  show ?thesis by simp
qed

section \<open>Pagination\<close>

lemma concat_slices:
  "concat (map (\<lambda>i. take m (drop (i * m) xs)) [0..<k]) = take (k * m) xs"
proof (induction k)
  case 0
  show ?case by simp
next
  case (Suc k)
  have "take (k * m + m) xs = take (k * m) xs @ take m (drop (k * m) xs)"
    by (rule take_add)
  moreover have "Suc k * m = k * m + m" by simp
  ultimately show ?case using Suc by (simp del: mult_Suc)
qed

lemma pages_from_one: "[1..<Suc k] = map Suc [0..<k]"
  by (simp add: map_Suc_upt del: upt_Suc)

lemma page_count_covers:
  "0 < m \<Longrightarrow> (n::nat) \<le> ((n + m - 1) div m) * m"
proof -
  assume m: "0 < m"
  have "n + m - 1 = ((n + m - 1) div m) * m + (n + m - 1) mod m" by simp
  moreover have "(n + m - 1) mod m < m" using m by simp
  ultimately show ?thesis by linarith
qed

lemma mset_insert_row: "mset (insert_row le x ys) = add_mset x (mset ys)"
  by (induction ys) auto

lemma mset_stable_order_by: "mset (stable_order_by col desc q) = mset q"
  unfolding stable_order_by_def by (induction q) (auto simp: mset_insert_row)

lemma filter_completed_sub:
  "filter_completed c q = Inr q1 \<Longrightarrow> \<exists>P. q1 = filter P q"
  by (auto simp: filter_completed_def split: option.splits if_splits intro: exI [of _ "\<lambda>_. True"])

lemma filter_search_sub: "\<exists>P. filter_search s q = filter P q"
  by (auto simp: filter_search_def Let_def intro: exI [of _ "\<lambda>_. True"])

lemma get_tasks_page:
  assumes "current_user cfg now b = Inr uid"
    and "filter_completed (arg_completed args) (filter (\<lambda>t. owner_id t = uid) (tasks d)) = Inr q1"
    and "1 \<le> lim" and "lim \<le> 100" and "1 \<le> p"
  shows "fetch_page cfg now d b args lim p =
     (let q3 = order_by cfg (sort_column (arg_sort args)) (sort_desc (arg_order args))
                 (filter_search (arg_search args) q1)
      in (TaskPage (take (nat lim) (drop ((p - 1) * nat lim) q3)) (int p) lim (length q3), 200))"
proof -
  have "nat ((int p - 1) * lim) = (p - 1) * nat lim"
    using assms(3,5) by (simp add: nat_mult_distrib of_nat_diff)
  then show ?thesis
    using assms
    by (simp add: fetch_page_def get_tasks_def args_get_def paginate_query_def Let_def map_task_to_dict)
qed

lemma pages_partition:
  assumes "current_user cfg now b = Inr uid"
    and "filter_completed (arg_completed args) (filter (\<lambda>t. owner_id t = uid) (tasks d)) = Inr q1"
    and "\<forall>col desc q. mset (order_by cfg col desc q) = mset q"
    and "distinct (map task_id (tasks d))"
    and "1 \<le> lim" and "lim \<le> 100"
    and "matching = filter_search (arg_search args) q1"
    and "pages = fetch_pages cfg now d b args lim (length matching)"
  shows "mset (concat (map items_of pages)) = mset matching \<and>
         sum_list (map (\<lambda>r. length (items_of r)) pages) = length matching \<and>
         distinct (map task_id (concat (map items_of pages))) \<and>
         (\<forall>r \<in> set pages. total_of r = length matching \<and> snd r = 200)"
proof -
  define q3 where "q3 = order_by cfg (sort_column (arg_sort args)) (sort_desc (arg_order args)) matching"
  define m where "m = nat lim"
  define k where "k = page_count (length matching) lim"
  have m: "0 < m" using assms(5) by (simp add: m_def)
  have perm: "mset q3 = mset matching" using assms(3) by (simp add: q3_def)
  then have len: "length q3 = length matching" by (rule mset_eq_length)
  have page: "fetch_page cfg now d b args lim p =
      (TaskPage (take m (drop ((p - 1) * m) q3)) (int p) lim (length q3), 200)" if "1 \<le> p" for p
    using get_tasks_page [OF assms(1,2,5,6) that] by (simp add: Let_def q3_def m_def assms(7))
  have items: "map items_of pages = map (\<lambda>i. take m (drop (i * m) q3)) [0..<k]"
    unfolding assms(8) fetch_pages_def k_def [symmetric] pages_from_one
    by (simp add: page del: upt_Suc)
  have "length q3 \<le> k * m"
    unfolding k_def page_count_def len m_def [symmetric] using m by (rule page_count_covers)
  then have whole: "concat (map items_of pages) = q3"
    by (simp add: items concat_slices)
  obtain P where "q1 = filter P (filter (\<lambda>t. owner_id t = uid) (tasks d))"
    using filter_completed_sub [OF assms(2)] by blast
  moreover obtain Q where "matching = filter Q q1"
    unfolding assms(7) using filter_search_sub by blast
  ultimately have "distinct (map task_id matching)"
    using assms(4) by (simp add: distinct_map_filter)
  moreover have "mset (map task_id q3) = mset (map task_id matching)"
    using perm by simp
  ultimately have dist: "distinct (map task_id q3)"
    by (metis mset_eq_imp_distinct_iff)
  have "length (concat (map items_of pages)) = length matching"
    by (simp add: whole len)
  then have total: "sum_list (map (\<lambda>r. length (items_of r)) pages) = length matching"
    by (simp add: length_concat comp_def)
  have each: "\<forall>r \<in> set pages. total_of r = length matching \<and> snd r = 200"
    unfolding assms(8) fetch_pages_def pages_from_one by (auto simp: page len simp del: upt_Suc)
  show ?thesis using whole perm dist total each by simp
qed

text \<open>
  Claim C6. Let the request be authenticated as \<open>uid\<close>, let the \<open>completed\<close> value be
  accepted, and let \<open>matching\<close> be the tasks of \<open>uid\<close> that pass the \<open>completed\<close> filter
  and the search, \<open>N\<close> of them. Let the limit be in 1..100, let the task ids of the store
  be distinct, and let the engine's \<open>ORDER BY\<close> return, for given sort options and
  rows, one fixed arrangement of those rows. Then the pages 1 to \<open>ceil(N / limit)\<close>, put
  together, hold exactly the matching tasks: their lengths sum to \<open>N\<close>, no task is on two
  pages, none is missing, and every page answers 200 with total \<open>N\<close>.
\<close>

theorem pagination_covers_matching_tasks:
  assumes "current_user cfg now b = Inr uid"
    and "filter_completed (arg_completed args) (filter (\<lambda>t. owner_id t = uid) (tasks d)) = Inr q1"
    and "\<forall>col desc q. mset (order_by cfg col desc q) = mset q"
    and "distinct (map task_id (tasks d))"
    and "1 \<le> lim" and "lim \<le> 100"
  shows "let matching = filter_search (arg_search args) q1;
             pages = fetch_pages cfg now d b args lim (length matching)
         in mset (concat (map items_of pages)) = mset matching \<and>
            sum_list (map (\<lambda>r. length (items_of r)) pages) = length matching \<and>
            distinct (map task_id (concat (map items_of pages))) \<and>
            (\<forall>r \<in> set pages. total_of r = length matching \<and> snd r = 200)"
  unfolding Let_def by (rule pages_partition [OF assms refl refl])

theorem pagination_covers_matching_tasks_witness:
  "current_user demo_config 2500 alice_token = Inr 1 \<and>
   filter_completed (arg_completed alice_args) (filter (\<lambda>t. owner_id t = 1) (tasks demo_db))
     = Inr [milk, eggs] \<and>
   distinct (map task_id (tasks demo_db)) \<and>
   filter_search (arg_search alice_args) [milk, eggs] = [milk, eggs] \<and>
   map items_of (fetch_pages demo_config 2500 demo_db alice_token alice_args 1 2) = [[milk], [eggs]] \<and>
   map total_of (fetch_pages demo_config 2500 demo_db alice_token alice_args 1 2) = [2, 2] \<and>
   mset (concat (map items_of (fetch_pages demo_config 2500 demo_db alice_token alice_args 1 2)))
     = mset [milk, eggs] \<and>
   sum_list (map (\<lambda>r. length (items_of r)) (fetch_pages demo_config 2500 demo_db alice_token alice_args 1 2)) = 2 \<and>
   distinct (map task_id (concat (map items_of (fetch_pages demo_config 2500 demo_db alice_token alice_args 1 2))))"
proof -
  have h1: "current_user demo_config 2500 alice_token = Inr 1" by code_simp
  have h2: "filter_completed (arg_completed alice_args) (filter (\<lambda>t. owner_id t = 1) (tasks demo_db))
      = Inr [milk, eggs]" by code_simp
  have h3: "\<forall>col desc q. mset (order_by demo_config col desc q) = mset q"
    by (simp add: demo_config_def mset_stable_order_by)
  have h4: "distinct (map task_id (tasks demo_db))" by code_simp
  have h5: "filter_search (arg_search alice_args) [milk, eggs] = [milk, eggs]" by code_simp
  have h6: "map items_of (fetch_pages demo_config 2500 demo_db alice_token alice_args 1 2) = [[milk], [eggs]]"
    by code_simp
  have h7: "map total_of (fetch_pages demo_config 2500 demo_db alice_token alice_args 1 2) = [2, 2]"
    by code_simp
  have "(1::int) \<le> 1" and "(1::int) \<le> 100" by simp_all
  from pagination_covers_matching_tasks [OF h1 h2 h3 h4 this]
  have "mset (concat (map items_of (fetch_pages demo_config 2500 demo_db alice_token alice_args 1 2)))
       = mset [milk, eggs] \<and>
     sum_list (map (\<lambda>r. length (items_of r)) (fetch_pages demo_config 2500 demo_db alice_token alice_args 1 2)) = 2 \<and>
     distinct (map task_id (concat (map items_of (fetch_pages demo_config 2500 demo_db alice_token alice_args 1 2))))"
    by (simp add: Let_def h5 numeral_2_eq_2)
  with h1 h2 h4 h5 h6 h7 show ?thesis by simp
qed

section \<open>Unauthorized responses\<close>

text \<open>
  Claim C8, as the code has it. The claim that every 401 carries the body
  \<open>{"error": "Missing or invalid token"}\<close> fails at a login with a wrong password: it
  answers 401 with another body.
\<close>

theorem login_401_other_body:
  "snd (fst (login demo_config 2500 demo_db
       \<lparr>lj_email = Val ''alice@example.com'', lj_password = Val ''wrong''\<rparr>)) = 401 \<and>
   fst (fst (login demo_config 2500 demo_db
       \<lparr>lj_email = Val ''alice@example.com'', lj_password = Val ''wrong''\<rparr>))
     \<noteq> Error ''Missing or invalid token''"
  by code_simp

text \<open>
  Claim C8, amended. A request to a protected task route that carries no token is
  answered 401 with the body \<open>{"error": "Missing or invalid token"}\<close> and leaves the
  store as it was. A login with a non-empty email and password fails when no stored
  user has the email or when the password does not match the stored hash of the user
  found; a failed login is answered 401 with the body
  \<open>{"error": "Invalid credentials"}\<close> and leaves the store as it was, and no login
  answers 401 with another body.
\<close>

theorem unauthorized_bodies:
  "add_new_task cfg now d NoToken tj = ((Error ''Missing or invalid token'', 401), d) \<and>
   update_task cfg now d NoToken tid patch = ((Error ''Missing or invalid token'', 401), d) \<and>
   delete_task cfg now d NoToken tid = ((Error ''Missing or invalid token'', 401), d) \<and>
   get_tasks cfg now d NoToken args = (Error ''Missing or invalid token'', 401) \<and>
   (e \<noteq> [] \<and> p \<noteq> [] \<and> e \<notin> user_email ` set (users d) \<longrightarrow>
      login cfg now d \<lparr>lj_email = Val e, lj_password = Val p\<rparr>
        = ((Error ''Invalid credentials'', 401), d)) \<and>
   (e \<noteq> [] \<and> p \<noteq> [] \<and> find (\<lambda>x. user_email x = e) (users d) = Some u \<and>
    \<not> check_password_hash (kdf cfg) (user_password u) p \<longrightarrow>
      login cfg now d \<lparr>lj_email = Val e, lj_password = Val p\<rparr>
        = ((Error ''Invalid credentials'', 401), d)) \<and>
   (snd (fst (login cfg now d lj)) = 401 \<longrightarrow>
      login cfg now d lj = ((Error ''Invalid credentials'', 401), d))"
proof -
  have gate: "current_user cfg now NoToken = Inl (Error ''Missing or invalid token'', 401)"
    by (simp add: current_user_def jwt_required_def custom_unauthorized_response_def)
  have unknown: "login cfg now d \<lparr>lj_email = Val e, lj_password = Val p\<rparr>
      = ((Error ''Invalid credentials'', 401), d)"
    if "e \<noteq> [] \<and> p \<noteq> [] \<and> e \<notin> user_email ` set (users d)"
  proof -
    from that have "find (\<lambda>x. user_email x = e) (users d) = None"
      by (simp add: find_no_key)
    with that show ?thesis by (simp add: login_def Let_def)
  qed
  have wrong: "login cfg now d \<lparr>lj_email = Val e, lj_password = Val p\<rparr>
      = ((Error ''Invalid credentials'', 401), d)"
    if "e \<noteq> [] \<and> p \<noteq> [] \<and> find (\<lambda>x. user_email x = e) (users d) = Some u \<and>
        \<not> check_password_hash (kdf cfg) (user_password u) p"
    using that by (simp add: login_def Let_def)
  have only: "login cfg now d lj = ((Error ''Invalid credentials'', 401), d)"
    if "snd (fst (login cfg now d lj)) = 401"
    using that by (auto simp: login_def Let_def split: option.splits if_splits)
  show ?thesis
    using gate unknown wrong only
    by (simp add: add_new_task_def update_task_def delete_task_def get_tasks_def)
qed

theorem unauthorized_bodies_witness:
  "''nobody@example.com'' \<notin> user_email ` set (users demo_db) \<and>
   login demo_config 2500 demo_db \<lparr>lj_email = Val ''nobody@example.com'', lj_password = Val ''1234''\<rparr>
     = ((Error ''Invalid credentials'', 401), demo_db) \<and>
   find (\<lambda>x. user_email x = ''alice@example.com'') (users demo_db) = Some alice \<and>
   \<not> check_password_hash (kdf demo_config) (user_password alice) ''wrong'' \<and>
   login demo_config 2500 demo_db \<lparr>lj_email = Val ''alice@example.com'', lj_password = Val ''wrong''\<rparr>
     = ((Error ''Invalid credentials'', 401), demo_db) \<and>
   snd (fst (login demo_config 2500 demo_db
       \<lparr>lj_email = Val ''alice@example.com'', lj_password = Val ''wrong''\<rparr>)) = 401 \<and>
   add_new_task demo_config 2500 demo_db NoToken whitespace_task
     = ((Error ''Missing or invalid token'', 401), demo_db) \<and>
   update_task demo_config 2500 demo_db NoToken 1 new_title_patch
     = ((Error ''Missing or invalid token'', 401), demo_db) \<and>
   delete_task demo_config 2500 demo_db NoToken 1 = ((Error ''Missing or invalid token'', 401), demo_db) \<and>
   get_tasks demo_config 2500 demo_db NoToken alice_args = (Error ''Missing or invalid token'', 401)"
proof -
  have h1: "''nobody@example.com'' \<notin> user_email ` set (users demo_db)" by code_simp
  have h2: "find (\<lambda>x. user_email x = ''alice@example.com'') (users demo_db) = Some alice"
    by code_simp
  have h3: "\<not> check_password_hash (kdf demo_config) (user_password alice) ''wrong''"
    by code_simp
  note unknown = unauthorized_bodies [of demo_config 2500 demo_db whitespace_task 1 new_title_patch
      alice_args "''nobody@example.com''" "''1234''" alice
      "\<lparr>lj_email = Val ''alice@example.com'', lj_password = Val ''wrong''\<rparr>"]
  note wrong = unauthorized_bodies [of demo_config 2500 demo_db whitespace_task 1 new_title_patch
      alice_args "''alice@example.com''" "''wrong''" alice
      "\<lparr>lj_email = Val ''alice@example.com'', lj_password = Val ''wrong''\<rparr>"]
  note c1 = unknown [THEN conjunct1]
  note c2 = unknown [THEN conjunct2, THEN conjunct1]
  note c3 = unknown [THEN conjunct2, THEN conjunct2, THEN conjunct1]
  note c4 = unknown [THEN conjunct2, THEN conjunct2, THEN conjunct2, THEN conjunct1]
  note c5 = unknown [THEN conjunct2, THEN conjunct2, THEN conjunct2, THEN conjunct2, THEN conjunct1]
  note c6 = wrong [THEN conjunct2, THEN conjunct2, THEN conjunct2, THEN conjunct2, THEN conjunct2,
      THEN conjunct1]
  have l1: "login demo_config 2500 demo_db
      \<lparr>lj_email = Val ''nobody@example.com'', lj_password = Val ''1234''\<rparr>
      = ((Error ''Invalid credentials'', 401), demo_db)"
    by (rule c5 [THEN mp]) (simp add: h1)
  have l2: "login demo_config 2500 demo_db
      \<lparr>lj_email = Val ''alice@example.com'', lj_password = Val ''wrong''\<rparr>
      = ((Error ''Invalid credentials'', 401), demo_db)"
    by (rule c6 [THEN mp]) (simp add: h2 h3)
  have l3: "snd (fst (login demo_config 2500 demo_db
       \<lparr>lj_email = Val ''alice@example.com'', lj_password = Val ''wrong''\<rparr>)) = 401"
    unfolding l2 by simp
  show ?thesis
    by (intro conjI h1 l1 h2 h3 l2 l3 c1 c2 c3 c4)
qed

section \<open>Creating and updating at one instant\<close>

text \<open>
  Claim C3, at a title of three spaces, sent at instant 2500 to a process whose class
  \<open>Task\<close> was defined at the instants 1000 to 1002: the task is created (201) with the
  title as sent, and its \<open>created_at\<close> and \<open>updated_at\<close> are instants of that
  definition, not 2500. The same title sent as an update is rejected with 400.
\<close>

theorem create_whitespace_title:
  "add_new_task demo_config 2500 demo_db alice_token whitespace_task =
     ((TaskJson \<lparr>task_id = 4, owner_id = 1, title = ''   '', description = Some [],
                 completed = False, created_at = 1000, updated_at = 1001\<rparr>, 201),
      demo_db\<lparr>tasks := tasks demo_db @
        [\<lparr>task_id = 4, owner_id = 1, title = ''   '', description = Some [],
          completed = False, created_at = 1000, updated_at = 1001\<rparr>]\<rparr>) \<and>
   update_task demo_config 2500 demo_db alice_token 1
       \<lparr>pj_title = Val (JStr ''   ''), pj_description = Absent, pj_completed = Absent\<rparr> =
     ((Error ''Invalid title'', 400), demo_db)"
  by code_simp

text \<open>
  Claim C4, at the second update of a task by one process. The class \<open>Task\<close> was
  defined at the instants 1000 to 1002. A task is created at instant 2000
  (\<open>updated_at\<close> is 1001) and marked completed at instant 2500, which moves
  \<open>updated_at\<close> to 1002. The update with the title \<open>"  New  "\<close> at instant 3000 answers
  200 and stores the title \<open>New\<close>, and \<open>updated_at\<close> is 1002 before and after it, not
  greater.
\<close>

theorem second_update_keeps_updated_at:
  "(let d1 = snd (add_new_task demo_config 2000 demo_db alice_token old_json);
        d2 = snd (update_task demo_config 2500 d1 alice_token 4 done_patch);
        r3 = update_task demo_config 3000 d2 alice_token 4 new_title_patch
    in find (\<lambda>t. task_id t = 4) (tasks d1)
         = Some \<lparr>task_id = 4, owner_id = 1, title = ''Old'', description = Some [],
                 completed = False, created_at = 1000, updated_at = 1001\<rparr> \<and>
       find (\<lambda>t. task_id t = 4) (tasks d2)
         = Some \<lparr>task_id = 4, owner_id = 1, title = ''Old'', description = Some [],
                 completed = True, created_at = 1000, updated_at = 1002\<rparr> \<and>
       fst r3
         = (TaskJson \<lparr>task_id = 4, owner_id = 1, title = ''New'', description = Some [],
                      completed = True, created_at = 1000, updated_at = 1002\<rparr>, 200) \<and>
       find (\<lambda>t. task_id t = 4) (tasks (snd r3))
         = Some \<lparr>task_id = 4, owner_id = 1, title = ''New'', description = Some [],
                 completed = True, created_at = 1000, updated_at = 1002\<rparr>)"
  by code_simp

end
